theory Spec2Isabelle
  imports Main "HOL-Library.Sublist"
begin

section \<open>Truck Lookup: column guessing and the filter logic of app.py\<close>

text \<open>
  The application is a script over a pandas DataFrame. The part verified here is
  \<^item> the helpers \<open>clean_columns\<close>, \<open>suggest_column\<close> and \<open>make_example_df\<close>,
  \<^item> the four column guesses made with \<open>suggest_column\<close>,
  \<^item> the section "Filter Logic": the projection to four columns, the renaming, the
    stripped active query and the exact or partial mask.

  Python strings are modelled as \<open>string\<close> restricted to ASCII text: on ASCII,
  \<open>str.lower\<close> and \<open>str.casefold\<close> agree and only touch \<open>A\<close>..\<open>Z\<close>, and
  \<open>re.IGNORECASE\<close> identifies exactly a letter with its other case. Characters
  above 127 are outside the scope of the model.
\<close>

subsection \<open>Python strings\<close>

definition lower_char :: "char \<Rightarrow> char" where
  "lower_char c =
     (let n = (of_char c :: nat) in if 65 \<le> n \<and> n \<le> 90 then char_of (n + 32) else c)"

text \<open>\<open>str.lower\<close> and \<open>str.casefold\<close> (the same function on ASCII text).\<close>

definition lower :: "string \<Rightarrow> string" where
  "lower s = map lower_char s"

definition casefold :: "string \<Rightarrow> string" where
  "casefold s = map lower_char s"

text \<open>
  \<open>str.isspace\<close> on one ASCII character: tab, line feed, vertical tab, form feed,
  carriage return, the four separators 0x1C..0x1F and the space.
\<close>

definition isspace :: "char \<Rightarrow> bool" where
  "isspace c = (let n = (of_char c :: nat) in (9 \<le> n \<and> n \<le> 13) \<or> (28 \<le> n \<and> n \<le> 32))"

text \<open>\<open>str.strip()\<close>: leading and trailing whitespace removed.\<close>

definition strip :: "string \<Rightarrow> string" where
  "strip s = rev (dropWhile isspace (rev (dropWhile isspace s)))"

text \<open>\<open>s.startswith(k)\<close> and the operator \<open>k in s\<close> on strings, as loops over \<open>s\<close>.\<close>

fun startswith :: "string \<Rightarrow> string \<Rightarrow> bool" where
  "startswith s [] = True"
| "startswith [] (k # ks) = False"
| "startswith (c # cs) (k # ks) = (c = k \<and> startswith cs ks)"

fun str_in :: "string \<Rightarrow> string \<Rightarrow> bool" where
  "str_in k [] = (k = [])"
| "str_in k (c # cs) = (startswith (c # cs) k \<or> str_in k cs)"

text \<open>\<open>str(n)\<close> for an integer: decimal digits, a minus sign when negative.\<close>

definition digit_char :: "nat \<Rightarrow> char" where
  "digit_char d = char_of (48 + d)"

fun str_nat :: "nat \<Rightarrow> string" where
  "str_nat n = (if n < 10 then [digit_char n] else str_nat (n div 10) @ [digit_char (n mod 10)])"

definition str_int :: "int \<Rightarrow> string" where
  "str_int i = (if i < 0 then CHR ''-'' # str_nat (nat (- i)) else str_nat (nat i))"

subsection \<open>The DataFrame\<close>

text \<open>
  A cell is a string, an integer or the missing value (NaN, which is what
  \<open>read_csv\<close> and \<open>read_excel\<close> put in an empty cell). Floating-point cells are
  not modelled. A DataFrame is its ordered column labels and its rows, each row
  holding one cell per column.
\<close>

datatype cell = StrV string | IntV int | NaN

record dataframe =
  columns :: "string list"
  rows :: "cell list list"

datatype error = KeyError | ValueError | ReError

text \<open>
  \<open>Series.astype(str)\<close> applies \<open>str\<close> to every element of an object or integer
  column (pandas 1.x and 2.x): the missing value becomes the text \<open>nan\<close>.
\<close>

fun astype_str :: "cell \<Rightarrow> string" where
  "astype_str (StrV s) = s"
| "astype_str (IntV i) = str_int i"
| "astype_str NaN = ''nan''"

subsection \<open>Helpers of app.py\<close>

definition clean_columns :: "dataframe \<Rightarrow> dataframe" where
  "clean_columns df = df\<lparr>columns := map strip (columns df)\<rparr>"

text \<open>
  \<open>suggest_column\<close>: the first column, in table order, whose lowered label contains
  any of the keywords.
\<close>

fun suggest_loop :: "string list \<Rightarrow> string list \<Rightarrow> string option" where
  "suggest_loop [] keywords = None"
| "suggest_loop (c # cols) keywords =
     (if list_ex (\<lambda>k. str_in k (lower c)) keywords then Some c
      else suggest_loop cols keywords)"

definition suggest_column :: "dataframe \<Rightarrow> string list \<Rightarrow> string option" where
  "suggest_column df keywords = suggest_loop (columns df) keywords"

definition make_example_df :: dataframe where
  "make_example_df =
     \<lparr>columns = [''SR NO.'', ''Date'', ''Challan No.'', ''Broker Name'', ''Truck No.'',
                 ''PAN Name'', ''PAN No.''],
      rows =
        [ [IntV 1, StrV ''16-08-2025'', StrV ''101'', StrV ''SRPL COMPANY VEHICLE'',
          StrV ''GJ06ZZ1406'', StrV ''SRPL'', StrV ''AAGCS6114G''],
         [IntV 2, StrV ''16-08-2025'', StrV ''102'', StrV ''SRPL COMPANY VEHICLE'',
          StrV ''GJ06BX1706'', StrV ''SRPL'', StrV ''AAGCS6114G''],
         [IntV 3, StrV ''16-08-2025'', StrV ''103'', StrV ''SRPL COMPANY VEHICLE'',
          StrV ''GJ06BV8677'', StrV ''SRPL'', StrV ''AAGCS6114G''],
         [IntV 4, StrV ''16-08-2025'', StrV ''104'', StrV ''SRPL COMPANY VEHICLE'',
          StrV ''GJ06BV8938'', StrV ''SRPL'', StrV ''AAGCS6114G''],
         [IntV 5, StrV ''16-08-2025'', StrV ''105'', StrV ''SRPL COMPANY VEHICLE'',
          StrV ''GJ06BX1823'', StrV ''SRPL'', StrV ''AAGCS6114G''],
         [IntV 6, StrV ''16-08-2025'', StrV ''106'', StrV ''SRPL COMPANY VEHICLE'',
          StrV ''GJ06BT9034'', StrV ''SRPL'', StrV ''AAGCS6114G'']]\<rparr>"

subsection \<open>Column mapping\<close>

definition truck_guess :: "dataframe \<Rightarrow> string option" where
  "truck_guess df = suggest_column df [''truck'', ''vehicle'', ''veh'']"

definition broker_guess :: "dataframe \<Rightarrow> string option" where
  "broker_guess df = suggest_column df [''broker'', ''party'', ''vendor'', ''company'']"

definition panname_guess :: "dataframe \<Rightarrow> string option" where
  "panname_guess df = suggest_column df [''pan name'', ''panname'', ''name'']"

definition panno_guess :: "dataframe \<Rightarrow> string option" where
  "panno_guess df = suggest_column df [''pan no'', ''pan'', ''panno'', ''pan number'']"

subsection \<open>Regular expressions: the fragment of \<open>re\<close> that is interpreted\<close>

text \<open>
  \<open>Series.str.contains(pat, case=False, na=False)\<close> is called without
  \<open>regex=False\<close>, so pandas compiles \<open>pat\<close> with \<open>re.compile(pat, re.IGNORECASE)\<close>
  and keeps the elements where \<open>search\<close> finds a match. The model interprets the
  patterns made of ordinary characters, \<open>.\<close>, \<open>^\<close> and \<open>$\<close>, and the two
  parenthesis errors that need no further parsing. On any other pattern
  \<open>re_compile\<close> is \<open>None\<close>: the pattern is outside the interpreted fragment and
  the model says nothing about it.
\<close>

datatype re_item = Lit char | AnyChar | AtStart | AtEnd

definition newline :: char where
  "newline = CHR 0x0A"

text \<open>The characters with a meaning of their own in a pattern, beside \<open>.^$()\<close>.\<close>

definition re_operators :: "char list" where
  "re_operators = [CHR ''*'', CHR ''+'', CHR ''?'', CHR ''{'', CHR ''}'', CHR ''['', CHR '']'',
                   CHR 0x5C, CHR ''|'']"

text \<open>All the characters that do not stand for themselves in a pattern.\<close>

definition re_special :: "char list" where
  "re_special = [CHR ''.'', CHR ''^'', CHR ''$'', CHR ''('', CHR '')''] @ re_operators"

definition re_item_of :: "char \<Rightarrow> re_item" where
  "re_item_of c =
     (if c = CHR ''.'' then AnyChar
      else if c = CHR ''^'' then AtStart
      else if c = CHR ''$'' then AtEnd
      else Lit c)"

text \<open>
  A closing parenthesis at top level is the error "unbalanced parenthesis"; an
  opening one that no closing parenthesis follows is an error too (an unterminated
  group, or whatever the parser meets first inside it).
\<close>

fun re_compile :: "string \<Rightarrow> (error + re_item list) option" where
  "re_compile [] = Some (Inr [])"
| "re_compile (c # cs) =
     (if c = CHR '')'' then Some (Inl ReError)
      else if c = CHR ''('' then (if CHR '')'' \<in> set cs then None else Some (Inl ReError))
      else if c \<in> set re_operators then None
      else (case re_compile cs of
              None \<Rightarrow> None
            | Some (Inl e) \<Rightarrow> Some (Inl e)
            | Some (Inr items) \<Rightarrow> Some (Inr (re_item_of c # items))))"

text \<open>
  \<open>re_match items at_start s\<close>: the items match a prefix of \<open>s\<close>, where \<open>at_start\<close>
  tells whether \<open>s\<close> is the whole subject. With \<open>IGNORECASE\<close> a literal matches
  both cases of a letter; \<open>.\<close> matches any character but the newline; \<open>^\<close> holds
  at the start of the subject only; \<open>$\<close> holds at the end, or before a newline that
  ends the subject.
\<close>

fun re_match :: "re_item list \<Rightarrow> bool \<Rightarrow> string \<Rightarrow> bool" where
  "re_match [] at_start s = True"
| "re_match (Lit c # items) at_start [] = False"
| "re_match (Lit c # items) at_start (x # xs) =
     (lower_char x = lower_char c \<and> re_match items False xs)"
| "re_match (AnyChar # items) at_start [] = False"
| "re_match (AnyChar # items) at_start (x # xs) = (x \<noteq> newline \<and> re_match items False xs)"
| "re_match (AtStart # items) at_start s = (at_start \<and> re_match items at_start s)"
| "re_match (AtEnd # items) at_start s = ((s = [] \<or> s = [newline]) \<and> re_match items at_start s)"

text \<open>\<open>Pattern.search\<close>: a match starting at some position of the subject.\<close>

fun re_search_from :: "re_item list \<Rightarrow> bool \<Rightarrow> string \<Rightarrow> bool" where
  "re_search_from items at_start [] = re_match items at_start []"
| "re_search_from items at_start (x # xs) =
     (re_match items at_start (x # xs) \<or> re_search_from items False xs)"

definition re_search :: "re_item list \<Rightarrow> string \<Rightarrow> bool" where
  "re_search items s = re_search_from items True s"

subsection \<open>Filter Logic\<close>

text \<open>
  The four-column result \<open>res\<close>: after \<open>res.columns = [...]\<close> its columns are
  \<open>Truck No.\<close>, \<open>Broker Name\<close>, \<open>PAN Name\<close> and \<open>PAN No.\<close>, so a row is a record
  of these four cells.
\<close>

record res_row =
  truck_no :: cell
  broker_name :: cell
  pan_name :: cell
  pan_no :: cell

text \<open>The positions of the columns carrying a label (a label may occur more than once).\<close>

definition positions :: "string list \<Rightarrow> string \<Rightarrow> nat list" where
  "positions cols name = filter (\<lambda>i. cols ! i = name) [0 ..< length cols]"

text \<open>
  \<open>res\<close> is a copy of \<open>_df\<close> indexed by the list
  \<open>[truck_col, broker_col, panname_col, panno_col]\<close>. The indexing raises
  \<open>KeyError\<close> when a label is not a column; it selects every column carrying a
  requested label, so \<open>res.columns = [four labels]\<close> raises \<open>ValueError\<close> (length
  mismatch) when that is not four columns.
\<close>

definition project_columns ::
    "dataframe \<Rightarrow> string \<Rightarrow> string \<Rightarrow> string \<Rightarrow> string \<Rightarrow> error + res_row list" where
  "project_columns df truck_col broker_col panname_col panno_col =
     (if list_all (\<lambda>name. name \<in> set (columns df))
           [truck_col, broker_col, panname_col, panno_col]
      then (case concat (map (positions (columns df))
                          [truck_col, broker_col, panname_col, panno_col]) of
              [i, j, k, l] \<Rightarrow>
                Inr (map (\<lambda>r. \<lparr>truck_no = r ! i, broker_name = r ! j,
                                pan_name = r ! k, pan_no = r ! l\<rparr>) (rows df))
            | _ \<Rightarrow> Inl ValueError)
      else Inl KeyError)"

text \<open>\<open>active_query = (selected[0] if selected else query).strip()\<close>\<close>

definition active_query :: "string list \<Rightarrow> string \<Rightarrow> string" where
  "active_query selected query = strip (case selected of [] \<Rightarrow> query | s # _ \<Rightarrow> s)"

text \<open>
  The two masks over \<open>res["Truck No."].astype(str)\<close> and \<open>res.loc[mask]\<close>. The
  pattern is compiled once, before any row is looked at, so a bad pattern raises
  whatever the rows are.
\<close>

definition filter_logic ::
    "res_row list \<Rightarrow> string list \<Rightarrow> string \<Rightarrow> bool \<Rightarrow> (error + res_row list) option" where
  "filter_logic res selected query exact =
     (let aq = active_query selected query in
      if aq \<noteq> [] then
        (if exact then
           Some (Inr (filter (\<lambda>r. casefold (astype_str (truck_no r)) = casefold aq) res))
         else
           (case re_compile aq of
              None \<Rightarrow> None
            | Some (Inl e) \<Rightarrow> Some (Inl e)
            | Some (Inr items) \<Rightarrow>
                Some (Inr (filter (\<lambda>r. re_search items (astype_str (truck_no r))) res))))
      else Some (Inr res))"

text \<open>Lines 127 to 135 together: projection, then the filter.\<close>

definition lookup ::
    "dataframe \<Rightarrow> string \<Rightarrow> string \<Rightarrow> string \<Rightarrow> string \<Rightarrow> string list \<Rightarrow> string \<Rightarrow> bool
       \<Rightarrow> (error + res_row list) option" where
  "lookup df truck_col broker_col panname_col panno_col selected query exact =
     (case project_columns df truck_col broker_col panname_col panno_col of
        Inl e \<Rightarrow> Some (Inl e)
      | Inr res \<Rightarrow> filter_logic res selected query exact)"

section \<open>Properties\<close>

subsection \<open>Strings\<close>

lemma startswith_prefix: "startswith s k = prefix k s"
  by (induction s k rule: startswith.induct) auto

lemma str_in_sublist: "str_in k s = sublist k s"
  by (induction s) (simp_all add: startswith_prefix sublist_Cons_right)

lemma strip_whitespace:
  assumes "list_all isspace s"
  shows "strip s = []"
proof -
  from assms have dw: "dropWhile isspace s = []"
    by (simp add: list_all_iff)
  show ?thesis
    by (simp only: strip_def dw rev.simps dropWhile.simps)
qed

subsection \<open>Patterns without special characters\<close>

lemma re_compile_literal:
  "list_all (\<lambda>c. c \<notin> set re_special) pat \<Longrightarrow> re_compile pat = Some (Inr (map Lit pat))"
  by (induction pat) (auto simp: re_special_def re_item_of_def)

lemma re_match_literal:
  "re_match (map Lit pat) at_start s = prefix (casefold pat) (casefold s)"
proof (induction pat arbitrary: s at_start)
  case Nil
  show ?case by (simp add: casefold_def)
next
  case (Cons c pat)
  show ?case
  proof (cases s)
    case Nil
    then show ?thesis by (simp add: casefold_def)
  next
    case (Cons x xs)
    with Cons.IH show ?thesis by (auto simp: casefold_def)
  qed
qed

lemma re_search_from_literal:
  "re_search_from (map Lit pat) at_start s = sublist (casefold pat) (casefold s)"
proof (induction s arbitrary: at_start)
  case Nil
  show ?case by (simp add: re_match_literal casefold_def)
next
  case (Cons x xs)
  have "casefold (x # xs) = lower_char x # casefold xs"
    by (simp add: casefold_def)
  with Cons.IH show ?case
    by (simp add: re_match_literal sublist_Cons_right)
qed

text \<open>
  When the active query has no character that is special in a pattern, the partial
  mask is the case-insensitive substring test.
\<close>

lemma partial_literal_query:
  assumes "active_query selected query \<noteq> []"
    and "list_all (\<lambda>c. c \<notin> set re_special) (active_query selected query)"
  shows "filter_logic res selected query False =
           Some (Inr (filter (\<lambda>r. sublist (casefold (active_query selected query))
                                      (casefold (astype_str (truck_no r)))) res))"
  using assms
  by (simp add: filter_logic_def re_compile_literal re_search_def re_search_from_literal)

text \<open>
  For such a query every row of the exact mode is a row of the partial mode: a text
  equal to the query contains it.
\<close>

lemma exact_subset_partial_literal:
  assumes "active_query selected query \<noteq> []"
    and "list_all (\<lambda>c. c \<notin> set re_special) (active_query selected query)"
    and "filter_logic res selected query True = Some (Inr ex)"
    and "filter_logic res selected query False = Some (Inr pa)"
  shows "set ex \<subseteq> set pa"
proof -
  from assms(1,3) have "ex = filter (\<lambda>r. casefold (astype_str (truck_no r)) =
      casefold (active_query selected query)) res"
    by (simp add: filter_logic_def)
  moreover from assms(4) partial_literal_query [OF assms(1,2), of res]
  have "pa = filter (\<lambda>r. sublist (casefold (active_query selected query))
      (casefold (astype_str (truck_no r)))) res"
    by simp
  ultimately show ?thesis
    by auto
qed

text \<open>Whenever the filter returns rows, they are rows of its input, no more than there were.\<close>

lemma filter_logic_length:
  "filter_logic res selected query exact = Some (Inr out) \<Longrightarrow> length out \<le> length res"
  by (auto simp: filter_logic_def Let_def split: if_splits option.splits sum.splits)

subsection \<open>The column guesses\<close>

text \<open>
  C10: the guesses are not injective. On the built-in example table the keyword
  \<open>name\<close> of the PAN-name role is found in \<open>Broker Name\<close>, which comes before
  \<open>PAN Name\<close>, so the broker guess and the PAN-name guess are the same column.
\<close>

theorem example_broker_and_panname_guess_coincide:
  "broker_guess (clean_columns make_example_df) = Some ''Broker Name'' \<and>
   panname_guess (clean_columns make_example_df) = Some ''Broker Name''"
  by code_simp

text \<open>
  C2: a table with the columns \<open>PAN Name\<close> and \<open>PAN No.\<close> should get \<open>PAN Name\<close>
  as PAN-name guess and \<open>PAN No.\<close> as PAN-number guess. The code does not do
  that: every guess is made on its own, and the keyword \<open>pan\<close> of the PAN-number
  role is found in \<open>PAN Name\<close>. On the built-in example table the PAN-name guess
  is \<open>Broker Name\<close> and the PAN-number guess is \<open>PAN Name\<close>; on a table with
  just the two columns both guesses are \<open>PAN Name\<close>.
\<close>

theorem pan_guesses_on_pan_columns:
  "panname_guess (clean_columns make_example_df) = Some ''Broker Name'' \<and>
   panno_guess (clean_columns make_example_df) = Some ''PAN Name'' \<and>
   panname_guess (clean_columns \<lparr>columns = [''PAN Name'', ''PAN No.''], rows = []\<rparr>)
     = Some ''PAN Name'' \<and>
   panno_guess (clean_columns \<lparr>columns = [''PAN Name'', ''PAN No.''], rows = []\<rparr>)
     = Some ''PAN Name''"
  by code_simp

subsection \<open>The filter\<close>

text \<open>
  C3: with a non-empty active query and \<open>exact\<close> set, the filter returns exactly
  the rows whose identifier text, case-folded, equals the case-folded stripped
  query, in their original order.
\<close>

theorem exact_returns_casefold_equal_rows:
  assumes "active_query selected query \<noteq> []"
  shows "filter_logic res selected query True =
           Some (Inr (filter (\<lambda>r. casefold (astype_str (truck_no r)) =
                                      casefold (active_query selected query)) res))"
  using assms by (simp add: filter_logic_def)

text \<open>
  Scenario A: one row with identifier \<open>GJ06BX1706\<close>, query \<open>gj06bx1706\<close>, exact:
  that row is returned.
\<close>

theorem exact_scenario_A:
  "active_query [] ''gj06bx1706'' \<noteq> [] \<and>
   filter_logic
     [\<lparr>truck_no = StrV ''GJ06BX1706'', broker_name = StrV ''SRPL COMPANY VEHICLE'',
       pan_name = StrV ''SRPL'', pan_no = StrV ''AAGCS6114G''\<rparr>]
     [] ''gj06bx1706'' True =
   Some (Inr [\<lparr>truck_no = StrV ''GJ06BX1706'', broker_name = StrV ''SRPL COMPANY VEHICLE'',
               pan_name = StrV ''SRPL'', pan_no = StrV ''AAGCS6114G''\<rparr>])"
proof -
  have q: "active_query [] ''gj06bx1706'' \<noteq> []"
    by code_simp
  have m: "casefold (astype_str (StrV ''GJ06BX1706'')) = casefold (active_query [] ''gj06bx1706'')"
    by code_simp
  show ?thesis
    using q m
      exact_returns_casefold_equal_rows [OF q,
        of "[\<lparr>truck_no = StrV ''GJ06BX1706'', broker_name = StrV ''SRPL COMPANY VEHICLE'',
              pan_name = StrV ''SRPL'', pan_no = StrV ''AAGCS6114G''\<rparr>]"]
    by simp
qed

text \<open>
  C4: a query that is empty or all whitespace filters nothing: the rows come back
  unchanged and in order, whatever \<open>exact\<close> is. For the whole lookup this is the
  projected table.
\<close>

theorem blank_query_returns_all_rows:
  assumes "list_all isspace query"
  shows "filter_logic res [] query exact = Some (Inr res) \<and>
         lookup df truck_col broker_col panname_col panno_col [] query exact =
           Some (project_columns df truck_col broker_col panname_col panno_col)"
proof -
  from assms have "active_query [] query = []"
    by (simp add: active_query_def strip_whitespace)
  then have f: "filter_logic r [] query exact = Some (Inr r)" for r
    by (simp add: filter_logic_def)
  then show ?thesis
    by (simp add: lookup_def split: sum.split)
qed

theorem blank_query_witness:
  "list_all isspace [CHR '' '', CHR 0x09, CHR '' ''] \<and>
   filter_logic
     [\<lparr>truck_no = StrV ''GJ06BX1706'', broker_name = StrV ''SRPL COMPANY VEHICLE'',
       pan_name = StrV ''SRPL'', pan_no = StrV ''AAGCS6114G''\<rparr>]
     [] [CHR '' '', CHR 0x09, CHR '' ''] True =
   Some (Inr [\<lparr>truck_no = StrV ''GJ06BX1706'', broker_name = StrV ''SRPL COMPANY VEHICLE'',
               pan_name = StrV ''SRPL'', pan_no = StrV ''AAGCS6114G''\<rparr>])"
proof -
  have w: "list_all isspace [CHR '' '', CHR 0x09, CHR '' '']"
    by (simp add: isspace_def)
  show ?thesis
    using w blank_query_returns_all_rows [OF w] by blast
qed

text \<open>
  C9: when the identifier column is not a column of the table, the projection raises
  \<open>KeyError\<close> (the invalid-column error of the lookup) and no rows are returned,
  whatever the other arguments are.
\<close>

theorem missing_identifier_column_raises:
  assumes "truck_col \<notin> set (columns df)"
  shows "lookup df truck_col broker_col panname_col panno_col selected query exact =
           Some (Inl KeyError)"
  using assms by (simp add: lookup_def project_columns_def)

theorem missing_identifier_column_witness:
  "''Vehicle'' \<notin> set (columns (clean_columns make_example_df)) \<and>
   lookup (clean_columns make_example_df) ''Vehicle'' ''Broker Name'' ''PAN Name'' ''PAN No.''
     [] ''GJ06B'' False = Some (Inl KeyError)"
proof -
  have c: "''Vehicle'' \<notin> set (columns (clean_columns make_example_df))"
    by code_simp
  show ?thesis
    using c missing_identifier_column_raises [OF c] by blast
qed

text \<open>
  C8: on the built-in example table, the query \<open>GJ06B\<close> without \<open>exact\<close> returns
  the five rows whose identifier starts with \<open>GJ06B\<close>, in table order, and leaves
  out the row of \<open>GJ06ZZ1406\<close>. The rows returned are five, not four.
\<close>

theorem example_partial_GJ06B_rows:
  "lookup (clean_columns make_example_df) ''Truck No.'' ''Broker Name'' ''PAN Name'' ''PAN No.''
     [] ''GJ06B'' False =
   Some (Inr
     [\<lparr>truck_no = StrV ''GJ06BX1706'', broker_name = StrV ''SRPL COMPANY VEHICLE'',
       pan_name = StrV ''SRPL'', pan_no = StrV ''AAGCS6114G''\<rparr>,
      \<lparr>truck_no = StrV ''GJ06BV8677'', broker_name = StrV ''SRPL COMPANY VEHICLE'',
       pan_name = StrV ''SRPL'', pan_no = StrV ''AAGCS6114G''\<rparr>,
      \<lparr>truck_no = StrV ''GJ06BV8938'', broker_name = StrV ''SRPL COMPANY VEHICLE'',
       pan_name = StrV ''SRPL'', pan_no = StrV ''AAGCS6114G''\<rparr>,
      \<lparr>truck_no = StrV ''GJ06BX1823'', broker_name = StrV ''SRPL COMPANY VEHICLE'',
       pan_name = StrV ''SRPL'', pan_no = StrV ''AAGCS6114G''\<rparr>,
      \<lparr>truck_no = StrV ''GJ06BT9034'', broker_name = StrV ''SRPL COMPANY VEHICLE'',
       pan_name = StrV ''SRPL'', pan_no = StrV ''AAGCS6114G''\<rparr>])"
  by code_simp

theorem example_partial_GJ06B_not_four_rows:
  "map_option (map_sum id length)
     (lookup (clean_columns make_example_df) ''Truck No.'' ''Broker Name'' ''PAN Name''
        ''PAN No.'' [] ''GJ06B'' False)
   \<noteq> Some (Inr 4)"
  by code_simp

text \<open>
  C1: the partial mask should be a literal, case-insensitive substring test for
  every query. The code passes the query to \<open>str.contains\<close> as a regular
  expression: on the built-in example table the query \<open>GJ06.X\<close> returns the rows
  of \<open>GJ06BX1706\<close> and \<open>GJ06BX1823\<close>, and neither identifier contains the text
  \<open>GJ06.X\<close> in any letter case.
\<close>

theorem partial_dot_matches_any_character:
  "map_option (map_sum id (map truck_no))
     (lookup (clean_columns make_example_df) ''Truck No.'' ''Broker Name'' ''PAN Name''
        ''PAN No.'' [] ''GJ06.X'' False)
     = Some (Inr [StrV ''GJ06BX1706'', StrV ''GJ06BX1823'']) \<and>
   \<not> sublist (casefold ''GJ06.X'') (casefold ''GJ06BX1706'') \<and>
   \<not> sublist (casefold ''GJ06.X'') (casefold ''GJ06BX1823'')"
  by code_simp

text \<open>
  C5: a row whose identifier is missing should never match a non-empty query. In the
  code \<open>astype(str)\<close> turns the missing value into the text \<open>nan\<close> before either
  mask is computed, so the query \<open>nan\<close> returns such a row in both modes.
\<close>

theorem missing_identifier_matches_nan:
  "filter_logic
     [\<lparr>truck_no = NaN, broker_name = StrV ''SRPL COMPANY VEHICLE'',
       pan_name = StrV ''SRPL'', pan_no = StrV ''AAGCS6114G''\<rparr>]
     [] ''nan'' True =
   Some (Inr [\<lparr>truck_no = NaN, broker_name = StrV ''SRPL COMPANY VEHICLE'',
               pan_name = StrV ''SRPL'', pan_no = StrV ''AAGCS6114G''\<rparr>]) \<and>
   filter_logic
     [\<lparr>truck_no = NaN, broker_name = StrV ''SRPL COMPANY VEHICLE'',
       pan_name = StrV ''SRPL'', pan_no = StrV ''AAGCS6114G''\<rparr>]
     [] ''nan'' False =
   Some (Inr [\<lparr>truck_no = NaN, broker_name = StrV ''SRPL COMPANY VEHICLE'',
               pan_name = StrV ''SRPL'', pan_no = StrV ''AAGCS6114G''\<rparr>])"
  by code_simp

text \<open>
  C6: the filter should never raise on a string query. The query \<open>(\<close> without
  \<open>exact\<close> is compiled as a regular expression and \<open>re.compile\<close> raises
  \<open>re.error\<close>, on the built-in example table as on any other.
\<close>

theorem partial_open_parenthesis_raises:
  "lookup (clean_columns make_example_df) ''Truck No.'' ''Broker Name'' ''PAN Name'' ''PAN No.''
     [] ''('' False = Some (Inl ReError)"
  by code_simp

text \<open>
  C7: the rows of the partial mode should include the rows of the exact mode. For a
  row with identifier \<open>GJ06$1\<close> and the query \<open>GJ06$1\<close>, the exact mode returns
  the row and the partial mode returns nothing: as a regular expression \<open>$\<close> asks
  for the end of the text, and \<open>1\<close> cannot follow it.
\<close>

theorem exact_row_missing_from_partial:
  "filter_logic
     [\<lparr>truck_no = StrV ''GJ06$1'', broker_name = StrV ''SRPL COMPANY VEHICLE'',
       pan_name = StrV ''SRPL'', pan_no = StrV ''AAGCS6114G''\<rparr>]
     [] ''GJ06$1'' True =
   Some (Inr [\<lparr>truck_no = StrV ''GJ06$1'', broker_name = StrV ''SRPL COMPANY VEHICLE'',
               pan_name = StrV ''SRPL'', pan_no = StrV ''AAGCS6114G''\<rparr>]) \<and>
   filter_logic
     [\<lparr>truck_no = StrV ''GJ06$1'', broker_name = StrV ''SRPL COMPANY VEHICLE'',
       pan_name = StrV ''SRPL'', pan_no = StrV ''AAGCS6114G''\<rparr>]
     [] ''GJ06$1'' False = Some (Inr [])"
  by code_simp

end
